theory Spec2Isabelle
  imports Main "HOL-Library.Sublist" "HOL-Library.Word"
begin

section \<open>The upload-and-generate workflow of \<open>src/src/App.jsx\<close>\<close>

text \<open>
  The component \<open>App\<close> owns six pieces of React state and two handlers that change
  them: \<open>handleFileChange\<close> (file intake) and \<open>handleGenerate\<close> (the request to the
  backend). Every setter call of the source writes an absolute value, so a handler is a
  function from the state before to the state after. What the handlers do to the
  browser (object URLs created, requests sent, lines written to the console) is kept
  in three more fields of the same record, so that "no request was sent" and
  "the URI is the one derived from these bytes" are statements about the state.
\<close>

subsection \<open>Data\<close>

type_synonym bytes = "8 word list"

text \<open>A \<open>File\<close> of the browser: its name, its declared media type and its content.\<close>

record File =
  fname :: string
  ftype :: string
  fbytes :: bytes

text \<open>
  \<open>URL.createObjectURL\<close> returns a fresh \<open>blob:\<close> URL string on every call. The string
  itself is opaque to the program, which only stores it and hands it to an \<open>img\<close>
  element; it is modelled as the index of the allocation.
\<close>

datatype uri = ObjectURL nat

text \<open>One entry of a \<open>FormData\<close>: a file part or a text part.\<close>

datatype form_value = FileEntry File | TextEntry string

text \<open>What \<open>fetch(url, {method, body})\<close> puts on the wire.\<close>

record request =
  req_url :: string
  req_method :: string
  req_headers :: "(string \<times> string) list"
  req_body :: "(string \<times> form_value) list"

text \<open>
  A \<open>Response\<close>: the status code, and what awaiting \<open>response.text()\<close> and
  \<open>response.blob()\<close> gives (\<open>Inl\<close> is the message of the rejection when reading the body
  fails). \<open>fetch\<close> itself either rejects (\<open>Inl\<close>, a transport failure) or resolves to a
  response, whatever its status.
\<close>

record response =
  resp_status :: nat
  text_result :: "string + string"
  blob_result :: "string + bytes"

type_synonym fetch_result = "string + response"

text \<open>\<open>response.ok\<close> of the Fetch standard: the status is in the range 200 to 299.\<close>

definition ok :: "response \<Rightarrow> bool" where
  "ok r = (200 \<le> resp_status r \<and> resp_status r \<le> 299)"

text \<open>
  The six \<open>useState\<close> cells of \<open>App\<close> (lines 8 to 18), followed by the browser side:
  the blobs behind the object URLs handed out so far (\<open>ObjectURL n\<close> is the \<open>n\<close>-th),
  the requests sent, and the lines written with \<open>console.error\<close>.
\<close>

record app_state =
  uploadedImage :: "uri option"
  uploadedFile :: "File option"
  generatedImage :: "uri option"
  prompt :: string
  isLoading :: bool
  error :: "string option"
  object_urls :: "bytes list"
  requests :: "request list"
  console :: "(string \<times> string) list"

text \<open>The state of the first render: the arguments of the \<open>useState\<close> calls.\<close>

definition initial_state :: app_state where
  "initial_state =
     \<lparr>uploadedImage = None, uploadedFile = None, generatedImage = None, prompt = [],
      isLoading = False, error = None, object_urls = [], requests = [], console = []\<rparr>"

subsection \<open>The browser calls\<close>

definition createObjectURL :: "bytes \<Rightarrow> app_state \<Rightarrow> uri \<times> app_state" where
  "createObjectURL b s =
     (ObjectURL (length (object_urls s)), s\<lparr>object_urls := object_urls s @ [b]\<rparr>)"

text \<open>What an object URL shows: the blob it was created from, if it was ever created.\<close>

definition resolve :: "app_state \<Rightarrow> uri \<Rightarrow> bytes option" where
  "resolve s u =
     (case u of ObjectURL n \<Rightarrow>
        if n < length (object_urls s) then Some (object_urls s ! n) else None)"

definition fetch :: "request \<Rightarrow> app_state \<Rightarrow> app_state" where
  "fetch rq s = s\<lparr>requests := requests s @ [rq]\<rparr>"

definition console_error :: "string \<Rightarrow> string \<Rightarrow> app_state \<Rightarrow> app_state" where
  "console_error label e s = s\<lparr>console := console s @ [(label, e)]\<rparr>"

text \<open>A number inside a template literal: its decimal digits.\<close>

definition digit :: "nat \<Rightarrow> char" where
  "digit d = ''0123456789'' ! d"

function show_nat :: "nat \<Rightarrow> string" where
  "show_nat n = (if n < 10 then [digit n] else show_nat (n div 10) @ [digit (n mod 10)])"
  by pat_completeness auto
termination
  by (relation "measure id") auto

declare show_nat.simps [simp del]

subsection \<open>Exceptions\<close>

text \<open>
  A block of statements either runs to its end or throws; in both cases the state
  written so far stays. \<open>try_catch_finally\<close> is the \<open>try { } catch (e) { } finally { }\<close>
  of JavaScript: the handler runs on a throw of the body, the final block runs on every
  path, and what the handler or the final block throws leaves the statement.
\<close>

datatype completion = Normal app_state | Throw string app_state

definition try_catch_finally ::
  "(app_state \<Rightarrow> completion) \<Rightarrow> (string \<Rightarrow> app_state \<Rightarrow> completion) \<Rightarrow>
   (app_state \<Rightarrow> completion) \<Rightarrow> app_state \<Rightarrow> completion" where
  "try_catch_finally body handler final s =
     (case body s of
        Normal s1 \<Rightarrow> final s1
      | Throw e s1 \<Rightarrow>
          (case handler e s1 of
             Normal s2 \<Rightarrow> final s2
           | Throw e' s2 \<Rightarrow>
               (case final s2 of
                  Normal s3 \<Rightarrow> Throw e' s3
                | Throw e'' s3 \<Rightarrow> Throw e'' s3)))"

definition final_state :: "completion \<Rightarrow> app_state" where
  "final_state c = (case c of Normal s \<Rightarrow> s | Throw e s \<Rightarrow> s)"

definition uncaught :: "completion \<Rightarrow> bool" where
  "uncaught c = (case c of Normal s \<Rightarrow> False | Throw e s \<Rightarrow> True)"

subsection \<open>File intake: \<open>handleFileChange\<close>, lines 23 to 36\<close>

text \<open>
  The candidate is \<open>None\<close> when the caller passes \<open>undefined\<close> (\<open>e.target.files[0]\<close> of
  an empty selection). The test is \<open>file && file.type.startsWith('image/')\<close>.
\<close>

definition invalid_image_message :: string where
  "invalid_image_message = ''Please upload a valid image file.''"

definition is_image :: "File option \<Rightarrow> bool" where
  "is_image c = (case c of None \<Rightarrow> False | Some f \<Rightarrow> prefix ''image/'' (ftype f))"

definition handleFileChange :: "File option \<Rightarrow> app_state \<Rightarrow> app_state" where
  "handleFileChange c s =
     (case c of
        Some f \<Rightarrow>
          if prefix ''image/'' (ftype f) then
            (let s1 = s\<lparr>uploadedFile := Some f\<rparr>;
                 (u, s2) = createObjectURL (fbytes f) s1;
                 s3 = s2\<lparr>uploadedImage := Some u\<rparr>;
                 s4 = s3\<lparr>generatedImage := None\<rparr>
             in s4\<lparr>error := None\<rparr>)
          else
            (let s1 = s\<lparr>error := Some invalid_image_message\<rparr>;
                 s2 = s1\<lparr>uploadedImage := None\<rparr>
             in s2\<lparr>uploadedFile := None\<rparr>)
      | None \<Rightarrow>
          (let s1 = s\<lparr>error := Some invalid_image_message\<rparr>;
               s2 = s1\<lparr>uploadedImage := None\<rparr>
           in s2\<lparr>uploadedFile := None\<rparr>))"

subsection \<open>The request: \<open>handleGenerate\<close>, lines 57 to 100\<close>

definition no_image_message :: string where
  "no_image_message = ''Please upload an image first!''"

definition generate_failed_message :: string where
  "generate_failed_message =
     ''Failed to generate image. Please ensure the backend is running and check the console.''"

definition API_URL :: string where
  "API_URL = ''http://localhost:8080/api/v1/generate''"

text \<open>
  Lines 76 to 80: the call of \<open>fetch\<close>. The options object has \<open>method\<close> and \<open>body\<close> and
  no \<open>headers\<close>.
\<close>

definition generate_request :: "(string \<times> form_value) list \<Rightarrow> request" where
  "generate_request formData =
     \<lparr>req_url = API_URL, req_method = ''POST'', req_headers = [], req_body = formData\<rparr>"

text \<open>
  The body of the \<open>try\<close> (lines 73 to 92). The request leaves when \<open>fetch\<close> is called;
  \<open>fr\<close> is what awaiting it gives. Each \<open>await\<close> that rejects throws its reason.
\<close>

definition try_block :: "(string \<times> form_value) list \<Rightarrow> fetch_result \<Rightarrow> app_state \<Rightarrow> completion" where
  "try_block formData fr s =
     (let s1 = fetch (generate_request formData) s in
      case fr of
        Inl e \<Rightarrow> Throw e s1
      | Inr r \<Rightarrow>
          if \<not> ok r then
            (case text_result r of
               Inl e \<Rightarrow> Throw e s1
             | Inr errorText \<Rightarrow>
                 Throw (''Network response was not ok. Status: '' @ show_nat (resp_status r)
                          @ ''. Message: '' @ errorText) s1)
          else
            (case blob_result r of
               Inl e \<Rightarrow> Throw e s1
             | Inr resultBlob \<Rightarrow>
                 (let (u, s2) = createObjectURL resultBlob s1
                  in Normal (s2\<lparr>generatedImage := Some u\<rparr>))))"

definition catch_block :: "string \<Rightarrow> app_state \<Rightarrow> completion" where
  "catch_block e s =
     (let s1 = console_error ''Error generating image:'' e s
      in Normal (s1\<lparr>error := Some generate_failed_message\<rparr>))"

definition finally_block :: "app_state \<Rightarrow> completion" where
  "finally_block s = Normal (s\<lparr>isLoading := False\<rparr>)"

text \<open>Lines 63 to 65, and the \<open>FormData\<close> of lines 68 to 70.\<close>

definition start_loading :: "app_state \<Rightarrow> app_state" where
  "start_loading s =
     (let s1 = s\<lparr>isLoading := True\<rparr>;
          s2 = s1\<lparr>generatedImage := None\<rparr>
      in s2\<lparr>error := None\<rparr>)"

definition build_form_data :: "File \<Rightarrow> string \<Rightarrow> (string \<times> form_value) list" where
  "build_form_data f p = [] @ [(''image'', FileEntry f)] @ [(''prompt'', TextEntry p)]"

text \<open>
  The state in which the call is suspended at \<open>await fetch(...)\<close>: lines 63 to 65 have
  run and the request is out. React renders this state while the call waits.
\<close>

definition submitting_state :: "File \<Rightarrow> app_state \<Rightarrow> app_state" where
  "submitting_state f s =
     fetch (generate_request (build_form_data f (prompt s))) (start_loading s)"

text \<open>
  The whole call. The first component is the state rendered while the call is
  suspended (\<open>None\<close> when it returns at line 60 without suspending), the second is how
  the call completes: \<open>Normal\<close> with the state it leaves, or \<open>Throw\<close> when an exception
  leaves the function (a rejected promise of the \<open>async\<close> function).
\<close>

definition handleGenerate :: "fetch_result \<Rightarrow> app_state \<Rightarrow> app_state option \<times> completion" where
  "handleGenerate fr s =
     (case uploadedFile s of
        None \<Rightarrow> (None, Normal (s\<lparr>error := Some no_image_message\<rparr>))
      | Some f \<Rightarrow>
          (let s1 = start_loading s;
               formData = build_form_data f (prompt s)
           in (Some (submitting_state f s),
               try_catch_finally (try_block formData fr) catch_block finally_block s1)))"

subsection \<open>The other two writes\<close>

text \<open>
  Line 103, the \<open>onClose\<close> of the error banner, and line 157, the \<open>onChange\<close> of the
  prompt field.
\<close>

definition dismiss :: "app_state \<Rightarrow> app_state" where
  "dismiss s = s\<lparr>error := None\<rparr>"

definition setPrompt :: "string \<Rightarrow> app_state \<Rightarrow> app_state" where
  "setPrompt p s = s\<lparr>prompt := p\<rparr>"

subsection \<open>What is rendered\<close>

text \<open>
  Lines 168 to 176, the result column: the spinner while loading, else the generated
  image if there is one, else the placeholder text. Line 116: the Create button is
  disabled while loading or without a staged file.
\<close>

datatype result_view = Spinner | ResultImage uri | Placeholder

definition resultPresenter :: "app_state \<Rightarrow> result_view" where
  "resultPresenter s =
     (if isLoading s then Spinner
      else case generatedImage s of Some u \<Rightarrow> ResultImage u | None \<Rightarrow> Placeholder)"

definition create_disabled :: "app_state \<Rightarrow> bool" where
  "create_disabled s = (isLoading s \<or> uploadedFile s = None)"

subsection \<open>The workflow status\<close>

text \<open>
  The source has no status field. The status is read off the three flags the
  specification names, the loading flag, the presence of a result and the presence of
  an error, in the order in which the source renders them: a state with the loading
  flag set is \<open>Submitting\<close>; otherwise it is \<open>Succeeded\<close> with a result, \<open>Failed\<close> with an
  error and no result, and \<open>Idle\<close> with neither.
\<close>

datatype WorkflowStatus = Idle | Submitting | Succeeded | Failed

definition workflowStatus :: "app_state \<Rightarrow> WorkflowStatus" where
  "workflowStatus s =
     (if isLoading s then Submitting
      else if generatedImage s \<noteq> None then Succeeded
      else if error s \<noteq> None then Failed
      else Idle)"

text \<open>
  The outcomes of a request that end in the \<open>catch\<close> block: \<open>fetch\<close> rejects, the status
  is outside 200 to 299, or reading the body of a successful response fails.
\<close>

definition request_fails :: "fetch_result \<Rightarrow> bool" where
  "request_fails fr =
     (case fr of
        Inl e \<Rightarrow> True
      | Inr r \<Rightarrow> \<not> ok r \<or> (case blob_result r of Inl e \<Rightarrow> True | Inr b \<Rightarrow> False))"

subsection \<open>Sequences of operations\<close>

text \<open>
  An operation is one complete handler call: a file intake with its candidate, a
  prompt edit, a generate call together with what the backend answers, or a dismissal
  of the banner. Operations run one after the other, each on the state the previous
  one left; no operation starts while a generate call is suspended.
\<close>

datatype operation =
    FileIntake "File option"
  | PromptInput string
  | Generate fetch_result
  | Dismiss

fun step :: "app_state \<Rightarrow> operation \<Rightarrow> app_state" where
  "step s (FileIntake c) = handleFileChange c s"
| "step s (PromptInput p) = setPrompt p s"
| "step s (Generate fr) = final_state (snd (handleGenerate fr s))"
| "step s Dismiss = dismiss s"

definition run :: "operation list \<Rightarrow> app_state" where
  "run ops = foldl step initial_state ops"

subsection \<open>The scenarios of the specification\<close>

definition cat_png :: File where
  "cat_png = \<lparr>fname = ''cat.png'', ftype = ''image/png'', fbytes = [137, 80, 78, 71]\<rparr>"

definition notes_txt :: File where
  "notes_txt = \<lparr>fname = ''notes.txt'', ftype = ''text/plain'', fbytes = [104, 105]\<rparr>"

definition payload :: bytes where
  "payload = [1, 2, 3, 4, 5, 6, 7, 8, 9, 10]"

definition response_200 :: response where
  "response_200 = \<lparr>resp_status = 200, text_result = Inr [], blob_result = Inr payload\<rparr>"

definition response_500 :: response where
  "response_500 =
     \<lparr>resp_status = 500, text_result = Inr ''Internal Server Error'', blob_result = Inr []\<rparr>"

text \<open>A state with \<open>cat.png\<close> staged and the prompt typed, as after the first two steps
  of the first scenario.\<close>

definition staged_state :: app_state where
  "staged_state = run [FileIntake (Some cat_png), PromptInput ''ghibli style'']"

text \<open>The state a generate call leaves from there when the backend answers 500.\<close>

definition failed_state :: app_state where
  "failed_state = final_state (snd (handleGenerate (Inr response_500) staged_state))"

subsection \<open>Two invariants of the stored state\<close>

text \<open>
  \<open>staged_pair\<close>: the file reference and its preview are set and cleared together.
  \<open>validation_only\<close>: the loading flag is off, and a result and an error are shown
  together only when nothing is staged and the error is one of the two validation
  messages.
\<close>

definition staged_pair :: "app_state \<Rightarrow> bool" where
  "staged_pair s = (uploadedFile s = None \<longleftrightarrow> uploadedImage s = None)"

definition validation_only :: "app_state \<Rightarrow> bool" where
  "validation_only s =
     (\<not> isLoading s \<and>
      (generatedImage s \<noteq> None \<and> error s \<noteq> None \<longrightarrow>
         uploadedFile s = None \<and> uploadedImage s = None \<and>
         (error s = Some invalid_image_message \<or> error s = Some no_image_message)))"

section \<open>Properties\<close>

subsection \<open>Auxiliary facts\<close>

lemmas generate_defs =
  handleGenerate_def try_catch_finally_def try_block_def catch_block_def finally_block_def
  submitting_state_def start_loading_def build_form_data_def generate_request_def fetch_def
  console_error_def createObjectURL_def final_state_def uncaught_def

lemma show_nat_500: "show_nat 500 = ''500''"
  by (simp add: show_nat.simps digit_def)

lemma staged_state_eq:
  "staged_state =
     \<lparr>uploadedImage = Some (ObjectURL 0), uploadedFile = Some cat_png, generatedImage = None,
      prompt = ''ghibli style'', isLoading = False, error = None,
      object_urls = [fbytes cat_png], requests = [], console = []\<rparr>"
  by (simp add: staged_state_def run_def initial_state_def handleFileChange_def
      createObjectURL_def setPrompt_def cat_png_def)

lemma failed_state_eq:
  "failed_state =
     \<lparr>uploadedImage = Some (ObjectURL 0), uploadedFile = Some cat_png, generatedImage = None,
      prompt = ''ghibli style'', isLoading = False,
      error = Some ''Failed to generate image. Please ensure the backend is running and check the console.'',
      object_urls = [fbytes cat_png],
      requests = [generate_request [(''image'', FileEntry cat_png),
                                    (''prompt'', TextEntry ''ghibli style'')]],
      console = [(''Error generating image:'',
                  ''Network response was not ok. Status: 500. Message: Internal Server Error'')]\<rparr>"
  by (simp add: failed_state_def staged_state_eq generate_defs response_500_def ok_def
      show_nat_500 generate_failed_message_def)

lemma step_generate_cases:
  "uploadedFile s = None \<and> step s (Generate fr) = s\<lparr>error := Some no_image_message\<rparr>
   \<or> uploadedFile s \<noteq> None \<and> \<not> isLoading (step s (Generate fr)) \<and>
      (generatedImage (step s (Generate fr)) = None \<or> error (step s (Generate fr)) = None)"
  by (cases "uploadedFile s")
     (auto simp add: generate_defs Let_def split: sum.splits if_splits)

lemma step_generate_staged_pair:
  "staged_pair s \<Longrightarrow> staged_pair (step s (Generate fr))"
  by (cases "uploadedFile s")
     (auto simp add: staged_pair_def generate_defs Let_def split: sum.splits if_splits)

lemma invariants_step:
  assumes "validation_only s" and "staged_pair s"
  shows "validation_only (step s ev) \<and> staged_pair (step s ev)"
proof (cases ev)
  case (FileIntake c)
  show ?thesis
    using assms unfolding FileIntake
    by (cases c)
       (auto simp add: validation_only_def staged_pair_def handleFileChange_def
          createObjectURL_def Let_def)
next
  case (PromptInput p)
  then show ?thesis
    using assms by (simp add: validation_only_def staged_pair_def setPrompt_def)
next
  case (Generate fr)
  show ?thesis
    using assms step_generate_cases [of s fr] step_generate_staged_pair [of s fr]
    unfolding Generate
    by (auto simp add: validation_only_def staged_pair_def)
next
  case Dismiss
  then show ?thesis
    using assms by (simp add: validation_only_def staged_pair_def dismiss_def)
qed

lemma invariants_foldl:
  "validation_only s \<Longrightarrow> staged_pair s \<Longrightarrow>
   validation_only (foldl step s ops) \<and> staged_pair (foldl step s ops)"
proof (induction ops arbitrary: s)
  case Nil
  then show ?case by simp
next
  case (Cons ev ops)
  from invariants_step [OF Cons.prems]
  have "validation_only (step s ev)" and "staged_pair (step s ev)"
    by simp_all
  from Cons.IH [OF this] show ?case by simp
qed

text \<open>
  The run used below: \<open>cat.png\<close> is staged, a generate call succeeds, then \<open>notes.txt\<close> is
  offered and rejected. The rejection (lines 32 to 34) writes the error and clears the
  staged file and preview; it does not touch \<open>generatedImage\<close>.
\<close>

lemma run_result_then_rejection:
  "run [FileIntake (Some cat_png), Generate (Inr response_200), FileIntake (Some notes_txt)]
   = \<lparr>uploadedImage = None, uploadedFile = None, generatedImage = Some (ObjectURL 1),
      prompt = [], isLoading = False, error = Some ''Please upload a valid image file.'',
      object_urls = [fbytes cat_png, payload],
      requests = [generate_request [(''image'', FileEntry cat_png), (''prompt'', TextEntry [])]],
      console = []\<rparr>"
  by (simp add: run_def initial_state_def handleFileChange_def cat_png_def notes_txt_def
      response_200_def ok_def generate_defs Let_def invalid_image_message_def)

subsection \<open>The result and the error together\<close>

text \<open>
  C1, as the specification states it: in every reachable state that is not
  Submitting, at most one of GenerationResult and ErrorState is non-empty, in
  particular after any sequence of file-intake, generate and dismiss operations.
  The run of three operations above ends in a state that is not loading and holds both
  the result of the successful call and the validation message of the rejected file.
\<close>

theorem result_and_error_counterexample:
  "\<not> isLoading (run [FileIntake (Some cat_png), Generate (Inr response_200),
                      FileIntake (Some notes_txt)])
   \<and> generatedImage (run [FileIntake (Some cat_png), Generate (Inr response_200),
                          FileIntake (Some notes_txt)]) \<noteq> None
   \<and> error (run [FileIntake (Some cat_png), Generate (Inr response_200),
                 FileIntake (Some notes_txt)]) \<noteq> None"
  by (simp add: run_result_then_rejection)

text \<open>
  C1, amended: after every sequence of complete file-intake, prompt, generate and
  dismiss operations from the initial state, the loading flag is off, and
  GenerationResult and ErrorState are both non-empty only when no file is staged and
  ErrorState is one of the two validation messages. So whenever a file is staged at
  most one of the two is non-empty, and the message of a failed request is never shown
  beside a result.
\<close>

theorem result_and_error_invariant:
  "\<not> isLoading (run ops)
   \<and> (generatedImage (run ops) \<noteq> None \<and> error (run ops) \<noteq> None \<longrightarrow>
        uploadedFile (run ops) = None
        \<and> (error (run ops) = Some ''Please upload a valid image file.''
           \<or> error (run ops) = Some ''Please upload an image first!''))"
proof -
  have "validation_only initial_state" and "staged_pair initial_state"
    by (simp_all add: validation_only_def staged_pair_def initial_state_def)
  from invariants_foldl [OF this, of ops] show ?thesis
    by (simp add: run_def validation_only_def invalid_image_message_def no_image_message_def)
qed

theorem result_and_error_invariant_witness:
  "generatedImage (run [FileIntake (Some cat_png), Generate (Inr response_200),
                        FileIntake (Some notes_txt)]) \<noteq> None
   \<and> error (run [FileIntake (Some cat_png), Generate (Inr response_200),
                 FileIntake (Some notes_txt)]) \<noteq> None
   \<and> uploadedFile (run [FileIntake (Some cat_png), Generate (Inr response_200),
                        FileIntake (Some notes_txt)]) = None
   \<and> error (run [FileIntake (Some cat_png), Generate (Inr response_200),
                 FileIntake (Some notes_txt)]) = Some ''Please upload a valid image file.''"
  using result_and_error_invariant
    [of "[FileIntake (Some cat_png), Generate (Inr response_200), FileIntake (Some notes_txt)]"]
  by (simp add: run_result_then_rejection)

subsection \<open>File intake\<close>

text \<open>
  C2: a candidate that is missing, or whose media type does not start with
  \<open>image/\<close>, leaves the state as it was except for three cells: the error is the fixed
  validation message, and the staged file and the staged preview are empty.
\<close>

theorem file_intake_rejects:
  assumes "\<not> is_image c"
  shows "handleFileChange c s =
           s\<lparr>error := Some ''Please upload a valid image file.'', uploadedImage := None,
             uploadedFile := None\<rparr>
       \<and> error (handleFileChange c s) = Some ''Please upload a valid image file.''
       \<and> uploadedFile (handleFileChange c s) = None
       \<and> uploadedImage (handleFileChange c s) = None"
  using assms
  by (cases c) (simp_all add: handleFileChange_def is_image_def invalid_image_message_def)

theorem file_intake_rejects_witness:
  "\<not> is_image (Some notes_txt) \<and> \<not> is_image None
   \<and> error (handleFileChange (Some notes_txt) staged_state)
       = Some ''Please upload a valid image file.''
   \<and> uploadedFile (handleFileChange (Some notes_txt) staged_state) = None
   \<and> uploadedImage (handleFileChange (Some notes_txt) staged_state) = None
   \<and> uploadedFile (handleFileChange None staged_state) = None
   \<and> uploadedImage (handleFileChange None staged_state) = None"
proof -
  have rejected: "\<not> is_image (Some notes_txt)"
    by (simp add: is_image_def notes_txt_def)
  have missing: "\<not> is_image None"
    by (simp add: is_image_def)
  from file_intake_rejects [OF rejected, of staged_state]
    file_intake_rejects [OF missing, of staged_state] rejected missing
  show ?thesis by simp
qed

text \<open>
  C3: a candidate whose media type starts with \<open>image/\<close> is staged: the file
  reference is stored, the preview is a fresh object URL that resolves to the bytes of
  the file, and the result and the error are empty afterwards, whatever they were.
\<close>

theorem file_intake_accepts:
  assumes "is_image (Some f)"
  shows "uploadedFile (handleFileChange (Some f) s) = Some f
       \<and> uploadedImage (handleFileChange (Some f) s) = Some (ObjectURL (length (object_urls s)))
       \<and> resolve (handleFileChange (Some f) s) (ObjectURL (length (object_urls s)))
           = Some (fbytes f)
       \<and> resolve s (ObjectURL (length (object_urls s))) = None
       \<and> generatedImage (handleFileChange (Some f) s) = None
       \<and> error (handleFileChange (Some f) s) = None"
  using assms
  by (simp add: is_image_def handleFileChange_def createObjectURL_def resolve_def)

theorem file_intake_accepts_witness:
  "is_image (Some cat_png)
   \<and> generatedImage
        (run [FileIntake (Some cat_png), Generate (Inr response_200), FileIntake (Some notes_txt)])
       \<noteq> None
   \<and> error
        (run [FileIntake (Some cat_png), Generate (Inr response_200), FileIntake (Some notes_txt)])
       \<noteq> None
   \<and> uploadedFile (handleFileChange (Some cat_png)
        (run [FileIntake (Some cat_png), Generate (Inr response_200), FileIntake (Some notes_txt)]))
       = Some cat_png
   \<and> uploadedImage (handleFileChange (Some cat_png)
        (run [FileIntake (Some cat_png), Generate (Inr response_200), FileIntake (Some notes_txt)]))
       = Some (ObjectURL 2)
   \<and> generatedImage (handleFileChange (Some cat_png)
        (run [FileIntake (Some cat_png), Generate (Inr response_200), FileIntake (Some notes_txt)]))
       = None
   \<and> error (handleFileChange (Some cat_png)
        (run [FileIntake (Some cat_png), Generate (Inr response_200), FileIntake (Some notes_txt)]))
       = None"
proof -
  have png: "is_image (Some cat_png)"
    by (simp add: is_image_def cat_png_def)
  from file_intake_accepts [OF png,
      of "run [FileIntake (Some cat_png), Generate (Inr response_200), FileIntake (Some notes_txt)]"]
    png
  show ?thesis by (simp add: run_result_then_rejection)
qed

subsection \<open>Generate without a staged file\<close>

text \<open>
  C4: when no file is staged, \<open>handleGenerate\<close> returns without suspending, sends no
  request, writes the validation message to the error, and leaves every other cell
  (preview, prompt, result, loading flag) as it was.
\<close>

theorem generate_without_file:
  assumes "uploadedFile s = None"
  shows "handleGenerate fr s =
           (None, Normal (s\<lparr>error := Some ''Please upload an image first!''\<rparr>))
       \<and> requests (final_state (snd (handleGenerate fr s))) = requests s
       \<and> error (final_state (snd (handleGenerate fr s))) = Some ''Please upload an image first!''
       \<and> uploadedImage (final_state (snd (handleGenerate fr s))) = uploadedImage s
       \<and> uploadedFile (final_state (snd (handleGenerate fr s))) = None
       \<and> prompt (final_state (snd (handleGenerate fr s))) = prompt s
       \<and> generatedImage (final_state (snd (handleGenerate fr s))) = generatedImage s
       \<and> isLoading (final_state (snd (handleGenerate fr s))) = isLoading s"
  using assms by (simp add: handleGenerate_def no_image_message_def final_state_def)

theorem generate_without_file_witness:
  "uploadedFile initial_state = None
   \<and> handleGenerate (Inr response_200) initial_state =
       (None, Normal (initial_state\<lparr>error := Some ''Please upload an image first!''\<rparr>))
   \<and> requests (final_state (snd (handleGenerate (Inr response_200) initial_state))) = []"
proof -
  have nofile: "uploadedFile initial_state = None"
    by (simp add: initial_state_def)
  from generate_without_file [OF nofile, of "Inr response_200"] nofile
  show ?thesis by (simp add: initial_state_def final_state_def)
qed

subsection \<open>Generate with a staged file\<close>

text \<open>
  C5: with a file staged, a response whose status is in the success range and
  whose body reads as a blob takes the workflow through Submitting to Succeeded: the
  call suspends in a loading state with no error, and completes normally in a state
  that is not loading, has no error, and whose result is a fresh object URL resolving
  to the bytes of the response. Started from Idle, the statuses are Idle, Submitting,
  Succeeded and the error is empty in all three states.
\<close>

theorem generate_success:
  assumes "uploadedFile s = Some f" and "ok r" and "blob_result r = Inr b"
  shows "(let mid = submitting_state f s;
              fin = final_state (snd (handleGenerate (Inr r) s));
              u = ObjectURL (length (object_urls s))
          in fst (handleGenerate (Inr r) s) = Some mid
           \<and> \<not> uncaught (snd (handleGenerate (Inr r) s))
           \<and> isLoading mid \<and> workflowStatus mid = Submitting \<and> error mid = None
           \<and> \<not> isLoading fin \<and> workflowStatus fin = Succeeded \<and> error fin = None
           \<and> generatedImage fin = Some u \<and> resolve fin u = Some b \<and> resolve s u = None
           \<and> (workflowStatus s = Idle \<longrightarrow>
                 map workflowStatus [s, mid, fin] = [Idle, Submitting, Succeeded]
                 \<and> map error [s, mid, fin] = [None, None, None]))"
  using assms
  by (simp add: generate_defs workflowStatus_def resolve_def Let_def split: if_splits)

theorem generate_success_witness:
  "uploadedFile staged_state = Some cat_png \<and> ok response_200
   \<and> blob_result response_200 = Inr payload
   \<and> workflowStatus staged_state = Idle
   \<and> map workflowStatus
        [staged_state, submitting_state cat_png staged_state,
         final_state (snd (handleGenerate (Inr response_200) staged_state))]
       = [Idle, Submitting, Succeeded]
   \<and> generatedImage (final_state (snd (handleGenerate (Inr response_200) staged_state)))
       = Some (ObjectURL 1)
   \<and> resolve (final_state (snd (handleGenerate (Inr response_200) staged_state))) (ObjectURL 1)
       = Some payload"
proof -
  have staged: "uploadedFile staged_state = Some cat_png"
    by (simp add: staged_state_eq)
  have success: "ok response_200"
    by (simp add: ok_def response_200_def)
  have blob: "blob_result response_200 = Inr payload"
    by (simp add: response_200_def)
  have idle: "workflowStatus staged_state = Idle"
    by (simp add: workflowStatus_def staged_state_eq)
  have one: "length (object_urls staged_state) = 1"
    by (simp add: staged_state_eq)
  from generate_success [OF staged success blob] staged success blob idle one
  show ?thesis by (simp add: Let_def)
qed



text \<open>
  C7: with a file staged, whatever \<open>fetch\<close> gives (a rejection, a response of any
  status, a body that reads or does not), the call completes normally, no exception
  leaves \<open>handleGenerate\<close>, and the loading flag is off in the state it leaves. Every
  failing outcome ends with the error set.
\<close>

theorem generate_clears_loading:
  assumes "uploadedFile s = Some f"
  shows "\<not> uncaught (snd (handleGenerate fr s))
       \<and> isLoading (final_state (snd (handleGenerate fr s))) = False
       \<and> (request_fails fr \<longrightarrow>
            error (final_state (snd (handleGenerate fr s))) = Some generate_failed_message)
       \<and> (\<not> request_fails fr \<longrightarrow>
            generatedImage (final_state (snd (handleGenerate fr s))) \<noteq> None)"
  using assms
  by (auto simp add: generate_defs request_fails_def Let_def split: sum.splits if_splits)

theorem generate_clears_loading_witness:
  "uploadedFile staged_state = Some cat_png
   \<and> request_fails (Inr response_500) \<and> \<not> request_fails (Inr response_200)
   \<and> isLoading (submitting_state cat_png staged_state)
   \<and> \<not> uncaught (snd (handleGenerate (Inr response_500) staged_state))
   \<and> \<not> isLoading (final_state (snd (handleGenerate (Inr response_500) staged_state)))
   \<and> \<not> isLoading (final_state (snd (handleGenerate (Inr response_200) staged_state)))
   \<and> \<not> isLoading (final_state (snd (handleGenerate (Inl ''Failed to fetch'') staged_state)))
   \<and> error (final_state (snd (handleGenerate (Inr response_500) staged_state)))
       = Some generate_failed_message
   \<and> generatedImage (final_state (snd (handleGenerate (Inr response_200) staged_state))) \<noteq> None"
proof -
  have staged: "uploadedFile staged_state = Some cat_png"
    by (simp add: staged_state_eq)
  have fails_500: "request_fails (Inr response_500)"
    by (simp add: request_fails_def ok_def response_500_def)
  have succeeds_200: "\<not> request_fails (Inr response_200)"
    by (simp add: request_fails_def ok_def response_200_def)
  have loading: "isLoading (submitting_state cat_png staged_state)"
    by (simp add: submitting_state_def start_loading_def fetch_def)
  from generate_clears_loading [OF staged, of "Inr response_500"]
    generate_clears_loading [OF staged, of "Inr response_200"]
    generate_clears_loading [OF staged, of "Inl ''Failed to fetch''"]
    staged fails_500 succeeds_200 loading
  show ?thesis by simp
qed

subsection \<open>Dismissing the banner\<close>

text \<open>
  C8, as the specification states it: dismissing a non-empty ErrorState empties it
  and changes nothing else, WorkflowStatus included. The state left by the generate
  call that the backend answered with 500 has the error set and is Failed; after the
  dismissal no flag is left that tells it from a state in which nothing was
  requested, and the status read off the flags is Idle.
\<close>

theorem dismiss_status_counterexample:
  "error failed_state \<noteq> None
   \<and> workflowStatus failed_state = Failed
   \<and> workflowStatus (dismiss failed_state) = Idle
   \<and> workflowStatus (dismiss failed_state) \<noteq> workflowStatus failed_state"
  by (simp add: failed_state_eq workflowStatus_def dismiss_def)

text \<open>
  C8, amended: dismissing the error banner empties the error and changes no other
  stored cell: the loading flag, the staged file, the preview, the prompt and the
  result are the same, nothing is sent, logged or allocated, and the result column and
  the Create button render as before. The source stores no status; the status read off
  the flags stays Submitting, Succeeded or Idle, and Failed becomes Idle.
\<close>

theorem dismiss_only_error:
  "error (dismiss s) = None
   \<and> isLoading (dismiss s) = isLoading s
   \<and> uploadedFile (dismiss s) = uploadedFile s
   \<and> uploadedImage (dismiss s) = uploadedImage s
   \<and> prompt (dismiss s) = prompt s
   \<and> generatedImage (dismiss s) = generatedImage s
   \<and> object_urls (dismiss s) = object_urls s
   \<and> requests (dismiss s) = requests s
   \<and> console (dismiss s) = console s
   \<and> resultPresenter (dismiss s) = resultPresenter s
   \<and> create_disabled (dismiss s) = create_disabled s
   \<and> workflowStatus (dismiss s) =
       (if workflowStatus s = Failed then Idle else workflowStatus s)"
  by (simp add: dismiss_def resultPresenter_def create_disabled_def workflowStatus_def)

theorem dismiss_only_error_witness:
  "error failed_state \<noteq> None
   \<and> error (dismiss failed_state) = None
   \<and> isLoading (dismiss failed_state) = False
   \<and> uploadedFile (dismiss failed_state) = Some cat_png
   \<and> uploadedImage (dismiss failed_state) = Some (ObjectURL 0)
   \<and> prompt (dismiss failed_state) = ''ghibli style''
   \<and> generatedImage (dismiss failed_state) = None
   \<and> workflowStatus failed_state = Failed
   \<and> workflowStatus (dismiss failed_state) = Idle
   \<and> error (run [FileIntake (Some cat_png), Generate (Inr response_200),
                 FileIntake (Some notes_txt)]) \<noteq> None
   \<and> workflowStatus (run [FileIntake (Some cat_png), Generate (Inr response_200),
                          FileIntake (Some notes_txt)]) = Succeeded
   \<and> workflowStatus (dismiss (run [FileIntake (Some cat_png), Generate (Inr response_200),
                                   FileIntake (Some notes_txt)])) = Succeeded"
proof -
  have failed: "workflowStatus failed_state = Failed"
    by (simp add: failed_state_eq workflowStatus_def)
  have succeeded:
    "workflowStatus (run [FileIntake (Some cat_png), Generate (Inr response_200),
                          FileIntake (Some notes_txt)]) = Succeeded"
    by (simp add: run_result_then_rejection workflowStatus_def)
  have shown:
    "error (run [FileIntake (Some cat_png), Generate (Inr response_200),
                 FileIntake (Some notes_txt)]) \<noteq> None"
    by (simp add: run_result_then_rejection)
  have cells: "error failed_state \<noteq> None" "isLoading failed_state = False"
    "uploadedFile failed_state = Some cat_png" "uploadedImage failed_state = Some (ObjectURL 0)"
    "prompt failed_state = ''ghibli style''" "generatedImage failed_state = None"
    by (simp_all add: failed_state_eq)
  from dismiss_only_error [of failed_state]
    dismiss_only_error
      [of "run [FileIntake (Some cat_png), Generate (Inr response_200),
                FileIntake (Some notes_txt)]"]
    failed succeeded shown cells
  show ?thesis by simp
qed

subsection \<open>The request and the frame of a generate call\<close>

text \<open>
  C9: with a file staged, a generate call adds exactly one request to those sent,
  whatever the backend then answers: a POST to the fixed URL, whose path is
  \<open>/api/v1/generate\<close>, with no headers set, and a form of two entries, the staged file
  under \<open>image\<close> and the current prompt under \<open>prompt\<close>. The request is out when the
  call suspends and nothing is sent after that.
\<close>

theorem generate_request_sent:
  assumes "uploadedFile s = Some f"
  shows "requests (final_state (snd (handleGenerate fr s))) =
           requests s @
             [\<lparr>req_url = ''http://localhost:8080/api/v1/generate'', req_method = ''POST'',
               req_headers = [],
               req_body = [(''image'', FileEntry f), (''prompt'', TextEntry (prompt s))]\<rparr>]
       \<and> requests (submitting_state f s) = requests (final_state (snd (handleGenerate fr s)))
       \<and> suffix ''/api/v1/generate'' API_URL"
  using assms
  by (auto simp add: generate_defs API_URL_def suffix_def Let_def split: sum.splits if_splits)

theorem generate_request_sent_witness:
  "uploadedFile staged_state = Some cat_png
   \<and> requests (final_state (snd (handleGenerate (Inr response_200) staged_state))) =
       [\<lparr>req_url = ''http://localhost:8080/api/v1/generate'', req_method = ''POST'',
         req_headers = [],
         req_body = [(''image'', FileEntry cat_png), (''prompt'', TextEntry ''ghibli style'')]\<rparr>]"
proof -
  have staged: "uploadedFile staged_state = Some cat_png"
    by (simp add: staged_state_eq)
  have before: "requests staged_state = []" "prompt staged_state = ''ghibli style''"
    by (simp_all add: staged_state_eq)
  from generate_request_sent [OF staged, of "Inr response_200"] staged before
  show ?thesis by simp
qed

text \<open>
  C10: with a file staged, a generate call leaves the staged file, its preview and
  the prompt as they were, in the state in which it suspends and in the state in which
  it completes, for every outcome of the request.
\<close>

theorem generate_keeps_inputs:
  assumes "uploadedFile s = Some f"
  shows "fst (handleGenerate fr s) = Some (submitting_state f s)
       \<and> uploadedFile (submitting_state f s) = uploadedFile s
       \<and> uploadedImage (submitting_state f s) = uploadedImage s
       \<and> prompt (submitting_state f s) = prompt s
       \<and> uploadedFile (final_state (snd (handleGenerate fr s))) = uploadedFile s
       \<and> uploadedImage (final_state (snd (handleGenerate fr s))) = uploadedImage s
       \<and> prompt (final_state (snd (handleGenerate fr s))) = prompt s"
  using assms
  by (auto simp add: generate_defs Let_def split: sum.splits if_splits)

theorem generate_keeps_inputs_witness:
  "uploadedFile staged_state = Some cat_png
   \<and> uploadedFile (final_state (snd (handleGenerate (Inr response_500) staged_state)))
       = Some cat_png
   \<and> uploadedImage (final_state (snd (handleGenerate (Inr response_500) staged_state)))
       = Some (ObjectURL 0)
   \<and> prompt (final_state (snd (handleGenerate (Inr response_500) staged_state)))
       = ''ghibli style''"
proof -
  have staged: "uploadedFile staged_state = Some cat_png"
    by (simp add: staged_state_eq)
  have before: "uploadedImage staged_state = Some (ObjectURL 0)"
    "prompt staged_state = ''ghibli style''"
    by (simp_all add: staged_state_eq)
  from generate_keeps_inputs [OF staged, of "Inr response_500"] staged before
  show ?thesis by simp
qed

end
